theory Spec2Isabelle
  imports Main "HOL-Library.Multiset" "HOL-Library.AList"
begin

section \<open>Card model (cards.py)\<close>

datatype Suit = RED | YELLOW | BLUE | GREEN | SPECIAL

datatype CardType = NUMBER | ESCAPE | PIRATE | MERMAID | SKULL_KING | TIGRESS | JOLLY_ROGER

text \<open>The Python exceptions the engine can raise.\<close>

datatype error = ValueError | RuntimeError | KeyError | TypeError | StopIteration

text \<open>
  A \<open>Card\<close> object has the three attributes \<open>card_type\<close>, \<open>suit\<close> and \<open>value\<close>; the last two
  are \<open>Optional\<close> in the source. Python's \<open>__eq__\<close> on cards compares the three attributes,
  which is equality of the record.
\<close>

record Card =
  card_type :: CardType
  suit :: "Suit option"
  card_value :: "int option"

text \<open>\<open>Card.__init__\<close>: the validation raises \<open>ValueError\<close>; the five special types overwrite
  suit and value; a \<open>JOLLY_ROGER\<close> card keeps whatever it was given.\<close>

definition Card_init :: "CardType \<Rightarrow> Suit option \<Rightarrow> int option \<Rightarrow> error + Card" where
  "Card_init ct s v =
     (if ct = NUMBER then
        (if s = None \<or> s = Some SPECIAL then Inl ValueError
         else (case v of
                 None \<Rightarrow> Inl ValueError
               | Some n \<Rightarrow>
                   if n < 1 \<or> n > 13 then Inl ValueError
                   else Inr \<lparr>card_type = ct, suit = s, card_value = v\<rparr>))
      else if ct \<in> {ESCAPE, PIRATE, MERMAID, SKULL_KING, TIGRESS} then
        Inr \<lparr>card_type = ct, suit = Some SPECIAL, card_value = None\<rparr>
      else Inr \<lparr>card_type = ct, suit = s, card_value = v\<rparr>)"

text \<open>A card is valid when it is what the constructor returns on its own attributes, that is,
  when some constructor call produced it.\<close>

definition valid_card :: "Card \<Rightarrow> bool" where
  "valid_card c \<longleftrightarrow> Card_init (card_type c) (suit c) (card_value c) = Inr c"

text \<open>\<open>Card(CardType.NUMBER, s, v)\<close> and \<open>Card(ct)\<close> for a special type, as the deck builds them.\<close>

definition number_card :: "Suit \<Rightarrow> int \<Rightarrow> Card" where
  "number_card s v = \<lparr>card_type = NUMBER, suit = Some s, card_value = Some v\<rparr>"

definition special_card :: "CardType \<Rightarrow> Card" where
  "special_card ct = \<lparr>card_type = ct, suit = Some SPECIAL, card_value = None\<rparr>"

text \<open>\<open>Card.can_follow_suit\<close>.\<close>

definition can_follow_suit :: "Card \<Rightarrow> Suit option \<Rightarrow> bool" where
  "can_follow_suit self led =
     (if card_type self \<in> {ESCAPE, PIRATE, MERMAID, SKULL_KING, TIGRESS} then True
      else suit self = led)"

text \<open>Python's \<open>a > b\<close> on two optional integers: comparing with \<open>None\<close> raises \<open>TypeError\<close>.\<close>

definition py_gt :: "int option \<Rightarrow> int option \<Rightarrow> error + bool" where
  "py_gt a b = (case (a, b) of (Some x, Some y) \<Rightarrow> Inr (x > y) | _ \<Rightarrow> Inl TypeError)"

text \<open>The dictionary \<open>special_hierarchy\<close> of \<open>Card.beats\<close>, read with \<open>.get\<close>.\<close>

definition special_hierarchy :: "CardType \<Rightarrow> int option" where
  "special_hierarchy ct =
     (if ct = SKULL_KING then Some 3
      else if ct = MERMAID then Some 4
      else if ct = PIRATE then Some 5
      else None)"

text \<open>\<open>Card.beats(self, other, led_suit, trump_suit)\<close>. The led suit is what
  \<open>Trick.determine_winner\<close> passes, an optional suit; \<open>if trump_suit:\<close> tests for \<open>None\<close>
  (every member of a plain \<open>Enum\<close> is truthy).\<close>

definition beats :: "Card \<Rightarrow> Card \<Rightarrow> Suit option \<Rightarrow> Suit option \<Rightarrow> error + bool" where
  "beats self other led_suit trump_suit =
     (if card_type self = ESCAPE then Inr False
      else if card_type other = ESCAPE then Inr True
      else
        (case (special_hierarchy (card_type self), special_hierarchy (card_type other)) of
           (Some self_special, Some other_special) \<Rightarrow> Inr (self_special > other_special)
         | (Some self_special, None) \<Rightarrow> Inr True
         | (None, Some other_special) \<Rightarrow> Inr False
         | (None, None) \<Rightarrow>
             if card_type self = NUMBER \<and> card_type other = NUMBER then
               (let self_is_trump = (suit self = trump_suit);
                    other_is_trump = (suit other = trump_suit)
                in
                  if trump_suit \<noteq> None \<and> self_is_trump \<and> \<not> other_is_trump then Inr True
                  else if trump_suit \<noteq> None \<and> other_is_trump \<and> \<not> self_is_trump then Inr False
                  else if trump_suit \<noteq> None \<and> self_is_trump \<and> other_is_trump then
                    py_gt (card_value self) (card_value other)
                  else if suit self = suit other then py_gt (card_value self) (card_value other)
                  else if suit self = led_suit then Inr True
                  else if suit other = led_suit then Inr False
                  else Inr False)
             else Inr False))"

section \<open>Players (player.py)\<close>

text \<open>
  A player is an object with a name and a bidding method; \<open>__eq__\<close> and \<open>__hash__\<close> use the name
  only, so every dictionary keyed by players is a map on names, and \<open>p == q\<close> is
  \<open>name p = name q\<close>. The bidding method is the bot's own code: it is a field of the record,
  called with the hand, the round number and the bids recorded so far.
\<close>

record Player =
  name :: string
  make_bid :: "Card list \<Rightarrow> int \<Rightarrow> (string \<rightharpoonup> int) \<Rightarrow> int"

section \<open>Tricks (game_engine.py)\<close>

record Trick =
  t_round_num :: int
  trick_num :: int
  t_trump_suit :: "Suit option"
  cards_played :: "(Player \<times> Card) list"
  led_suit :: "Suit option"
  winner :: "Player option"

definition Trick_init :: "int \<Rightarrow> int \<Rightarrow> Suit option \<Rightarrow> Trick" where
  "Trick_init rn tn trump =
     \<lparr>t_round_num = rn, trick_num = tn, t_trump_suit = trump,
      cards_played = [], led_suit = None, winner = None\<rparr>"

text \<open>\<open>Trick.play_card\<close>: the first card sets the led suit.\<close>

definition Trick_play_card :: "Trick \<Rightarrow> Player \<Rightarrow> Card \<Rightarrow> Trick" where
  "Trick_play_card t player c =
     (let t1 = (if length (cards_played t) = 0 then
                  (if card_type c = NUMBER then t\<lparr>led_suit := suit c\<rparr>
                   else t\<lparr>led_suit := Some SPECIAL\<rparr>)
                else t)
      in t1\<lparr>cards_played := cards_played t1 @ [(player, c)]\<rparr>)"

text \<open>The loop of \<open>determine_winner\<close> over \<open>cards_played[1:]\<close>, carrying the current winner.\<close>

fun winner_loop ::
  "Suit option \<Rightarrow> Suit option \<Rightarrow> Player \<times> Card \<Rightarrow> (Player \<times> Card) list \<Rightarrow> error + Player \<times> Card"
where
  "winner_loop led trump w [] = Inr w"
| "winner_loop led trump w ((player, c) # rest) =
     (case beats c (snd w) led trump of
        Inl e \<Rightarrow> Inl e
      | Inr b \<Rightarrow> winner_loop led trump (if b then (player, c) else w) rest)"

text \<open>\<open>Trick.determine_winner\<close>: returns the winner (\<open>None\<close> for an empty trick) and the trick
  with its \<open>winner\<close> attribute set.\<close>

definition determine_winner :: "Trick \<Rightarrow> error + Player option \<times> Trick" where
  "determine_winner t =
     (case cards_played t of
        [] \<Rightarrow> Inr (None, t)
      | first # rest \<Rightarrow>
          (case winner_loop (led_suit t) (t_trump_suit t) first rest of
             Inl e \<Rightarrow> Inl e
           | Inr (winner_player, winner_card) \<Rightarrow>
               Inr (Some winner_player, t\<lparr>winner := Some winner_player\<rparr>)))"

text \<open>A trick as the engine builds it: created empty, then one \<open>play_card\<close> per play.\<close>

definition trick_of_plays :: "int \<Rightarrow> int \<Rightarrow> Suit option \<Rightarrow> (Player \<times> Card) list \<Rightarrow> Trick" where
  "trick_of_plays rn tn trump plays =
     foldl (\<lambda>t (p, c). Trick_play_card t p c) (Trick_init rn tn trump) plays"

section \<open>Deck (cards.py)\<close>

record Deck =
  cards :: "Card list"

text \<open>\<open>Deck._create_deck\<close> appends the 52 number cards, suit by suit, then the special cards.
  Every constructor call it makes passes the validation of \<open>Card_init\<close>.\<close>

definition create_deck :: "Deck \<Rightarrow> Deck" where
  "create_deck d =
     d\<lparr>cards := cards d
        @ concat (map (\<lambda>s. map (\<lambda>v. number_card s v) [1..13]) [RED, YELLOW, BLUE, GREEN])
        @ replicate 5 (special_card ESCAPE)
        @ replicate 2 (special_card MERMAID)
        @ replicate 2 (special_card PIRATE)
        @ [special_card SKULL_KING]
        @ [special_card TIGRESS]\<rparr>"

definition Deck_init :: Deck where
  "Deck_init = create_deck \<lparr>cards = []\<rparr>"

text \<open>\<open>Deck.shuffle\<close> calls \<open>random.shuffle\<close>; the rearrangement the generator picks is the
  parameter \<open>rnd\<close>.\<close>

definition shuffle :: "(Card list \<Rightarrow> Card list) \<Rightarrow> Deck \<Rightarrow> Deck" where
  "shuffle rnd d = d\<lparr>cards := rnd (cards d)\<rparr>"

text \<open>Python's slices \<open>xs[:n]\<close> and \<open>xs[n:]\<close>; a negative \<open>n\<close> counts from the end and is
  clipped at the start of the list.\<close>

definition slice_to :: "int \<Rightarrow> 'a list \<Rightarrow> 'a list" where
  "slice_to n xs = (if n \<ge> 0 then take (nat n) xs else take (length xs - nat (- n)) xs)"

definition slice_from :: "int \<Rightarrow> 'a list \<Rightarrow> 'a list" where
  "slice_from n xs = (if n \<ge> 0 then drop (nat n) xs else drop (length xs - nat (- n)) xs)"

text \<open>\<open>Deck.deal\<close>: the dealt cards and the deck without them.\<close>

definition deal :: "Deck \<Rightarrow> int \<Rightarrow> error + Card list \<times> Deck" where
  "deal d n =
     (if n > int (length (cards d)) then Inl ValueError
      else Inr (slice_to n (cards d), d\<lparr>cards := slice_from n (cards d)\<rparr>))"

section \<open>Round state (game_engine.py)\<close>

text \<open>
  The dictionaries of \<open>GameState\<close> are keyed by players, hence by names. \<open>hands\<close> is kept as
  an association list in insertion order (its entries are counted below); storing under a
  key that is present replaces the entry, as a Python \<open>dict\<close> does.
\<close>

record GameState =
  players :: "Player list"
  round_num :: int
  num_cards :: int
  bids :: "string \<rightharpoonup> int"
  tricks_won :: "string \<rightharpoonup> int"
  hands :: "(string \<times> Card list) list"
  current_trick :: "Trick option"
  tricks :: "Trick list"
  trump_suit :: "Suit option"
  scores :: "string \<rightharpoonup> int"
  game_over :: bool

text \<open>The comprehension \<open>{player: 0 for player in players}\<close>.\<close>

definition zero_dict :: "Player list \<Rightarrow> (string \<rightharpoonup> int)" where
  "zero_dict ps = foldl (\<lambda>m p. m(name p \<mapsto> 0)) Map.empty ps"

definition GameState_init :: "Player list \<Rightarrow> int \<Rightarrow> GameState" where
  "GameState_init ps rn =
     \<lparr>players = ps, round_num = rn, num_cards = rn, bids = Map.empty, tricks_won = Map.empty,
      hands = [], current_trick = None, tricks = [], trump_suit = None,
      scores = zero_dict ps, game_over = False\<rparr>"

text \<open>\<open>self.hands[player]\<close>: a missing key raises \<open>KeyError\<close>.\<close>

definition hand_of :: "GameState \<Rightarrow> Player \<Rightarrow> error + Card list" where
  "hand_of st player =
     (case map_of (hands st) (name player) of None \<Rightarrow> Inl KeyError | Some h \<Rightarrow> Inr h)"

text \<open>\<open>GameState.get_legal_cards\<close>.\<close>

definition get_legal_cards :: "GameState \<Rightarrow> Player \<Rightarrow> error + Card list" where
  "get_legal_cards st player =
     (case current_trick st of
        None \<Rightarrow> hand_of st player
      | Some t \<Rightarrow>
          if cards_played t = [] then hand_of st player
          else
            (let led = led_suit t in
               if led \<noteq> None \<and> led \<noteq> Some SPECIAL then
                 (case hand_of st player of
                    Inl e \<Rightarrow> Inl e
                  | Inr hand \<Rightarrow>
                      (let following_cards =
                             filter (\<lambda>c. card_type c = NUMBER \<and> suit c = led) hand
                       in if following_cards \<noteq> [] then Inr following_cards
                          else Inr hand))
               else hand_of st player))"

section \<open>Game engine (game_engine.py)\<close>

record SkullKingGame =
  g_players :: "Player list"
  num_rounds :: int
  current_round :: int
  deck :: Deck
  state :: "GameState option"
  game_history :: "GameState list"
  cumulative_scores :: "string \<rightharpoonup> int"

definition SkullKingGame_init :: "Player list \<Rightarrow> int \<Rightarrow> error + SkullKingGame" where
  "SkullKingGame_init ps nr =
     (if length ps < 2 then Inl ValueError
      else if length ps > 6 then Inl ValueError
      else Inr \<lparr>g_players = ps, num_rounds = nr, current_round = 0, deck = Deck_init,
                state = None, game_history = [], cumulative_scores = zero_dict ps\<rparr>)"

text \<open>
  Every method of the engine mutates the game object and may raise. A method is modelled as
  a function to a pair: what it returns or raises, and the game object afterwards, which on
  an exception holds the mutations made before the \<open>raise\<close>.
\<close>

text \<open>The dealing loop of \<open>start_round\<close>.\<close>

fun deal_loop :: "Player list \<Rightarrow> int \<Rightarrow> Deck \<Rightarrow> GameState \<Rightarrow> (error + unit) \<times> Deck \<times> GameState" where
  "deal_loop [] n d st = (Inr (), d, st)"
| "deal_loop (player # ps) n d st =
     (case deal d n of
        Inl e \<Rightarrow> (Inl e, d, st)
      | Inr (dealt, d') \<Rightarrow>
          deal_loop ps n d'
            (st\<lparr>hands := AList.update (name player) dealt (hands st),
                tricks_won := (tricks_won st)(name player \<mapsto> 0)\<rparr>))"

text \<open>\<open>SkullKingGame.start_round\<close>; \<open>self.state\<close> is assigned only when every deal succeeded.\<close>

definition start_round ::
  "(Card list \<Rightarrow> Card list) \<Rightarrow> SkullKingGame \<Rightarrow> int \<Rightarrow> (error + GameState) \<times> SkullKingGame"
where
  "start_round rnd g rn =
     (let d0 = shuffle rnd Deck_init;
          st0 = (GameState_init (g_players g) rn)\<lparr>scores := cumulative_scores g\<rparr>
      in case deal_loop (g_players g) rn d0 st0 of
           (Inl e, d, st) \<Rightarrow> (Inl e, g\<lparr>deck := d\<rparr>)
         | (Inr u, d, st) \<Rightarrow> (Inr st, g\<lparr>deck := d, state := Some st\<rparr>))"

text \<open>The loop of \<open>collect_bids\<close>: the local dictionary \<open>bids\<close> and the round state, in which
  every accepted bid is stored before the next player is asked.\<close>

fun bid_loop ::
  "Player list \<Rightarrow> GameState \<Rightarrow> (string \<rightharpoonup> int) \<Rightarrow> (error + (string \<rightharpoonup> int)) \<times> GameState"
where
  "bid_loop [] st acc = (Inr acc, st)"
| "bid_loop (player # ps) st acc =
     (case hand_of st player of
        Inl e \<Rightarrow> (Inl e, st)
      | Inr hand \<Rightarrow>
          (let bid = make_bid player hand (round_num st) (bids st) in
             if bid < 0 \<or> bid > round_num st then (Inl ValueError, st)
             else bid_loop ps (st\<lparr>bids := (bids st)(name player \<mapsto> bid)\<rparr>)
                    (acc(name player \<mapsto> bid))))"

definition collect_bids :: "SkullKingGame \<Rightarrow> (error + (string \<rightharpoonup> int)) \<times> SkullKingGame" where
  "collect_bids g =
     (case state g of
        None \<Rightarrow> (Inl RuntimeError, g)
      | Some st \<Rightarrow>
          (case bid_loop (g_players g) st Map.empty of
             (r, st') \<Rightarrow> (r, g\<lparr>state := Some st'\<rparr>)))"

definition start_trick :: "SkullKingGame \<Rightarrow> (error + Trick) \<times> SkullKingGame" where
  "start_trick g =
     (case state g of
        None \<Rightarrow> (Inl RuntimeError, g)
      | Some st \<Rightarrow>
          (let trick = Trick_init (round_num st) (int (length (tricks st)) + 1) (trump_suit st)
           in (Inr trick, g\<lparr>state := Some (st\<lparr>current_trick := Some trick\<rparr>)\<rparr>)))"

text \<open>\<open>SkullKingGame.play_card\<close>. \<open>list.remove\<close> deletes the first equal card and raises
  \<open>ValueError\<close> when there is none; \<open>tricks_won.get(winner, 0)\<close> defaults to 0.\<close>

definition play_card :: "SkullKingGame \<Rightarrow> Player \<Rightarrow> Card \<Rightarrow> (error + bool) \<times> SkullKingGame" where
  "play_card g player c =
     (case state g of
        None \<Rightarrow> (Inl RuntimeError, g)
      | Some st \<Rightarrow>
          (case current_trick st of
             None \<Rightarrow> (Inl RuntimeError, g)
           | Some t \<Rightarrow>
               (case get_legal_cards st player of
                  Inl e \<Rightarrow> (Inl e, g)
                | Inr legal_cards \<Rightarrow>
                    if c \<notin> set legal_cards then (Inl ValueError, g)
                    else
                      (case hand_of st player of
                         Inl e \<Rightarrow> (Inl e, g)
                       | Inr hand \<Rightarrow>
                           if c \<notin> set hand then (Inl ValueError, g)
                           else
                             (let st1 = st\<lparr>hands :=
                                           AList.update (name player) (remove1 c hand) (hands st)\<rparr>;
                                  t1 = Trick_play_card t player c
                              in
                                if length (cards_played t1) = length (g_players g) then
                                  (case determine_winner t1 of
                                     Inl e \<Rightarrow>
                                       (Inl e, g\<lparr>state := Some (st1\<lparr>current_trick := Some t1\<rparr>)\<rparr>)
                                   | Inr (w, t2) \<Rightarrow>
                                       (let st2 =
                                              (case w of
                                                 None \<Rightarrow> st1
                                               | Some wp \<Rightarrow>
                                                   st1\<lparr>tricks_won := (tricks_won st1)(name wp \<mapsto>
                                                     (case tricks_won st1 (name wp) of
                                                        None \<Rightarrow> 0 | Some k \<Rightarrow> k) + 1)\<rparr>)
                                        in (Inr True,
                                            g\<lparr>state := Some (st2\<lparr>tricks := tricks st2 @ [t2],
                                                                current_trick := None\<rparr>)\<rparr>)))
                                else
                                  (Inr False,
                                   g\<lparr>state := Some (st1\<lparr>current_trick := Some t1\<rparr>)\<rparr>))))))"

text \<open>The score of one player in \<open>calculate_scores\<close>, from the bid, the tricks won and the
  round number.\<close>

definition round_score :: "int \<Rightarrow> int \<Rightarrow> int \<Rightarrow> int" where
  "round_score bid tw rn =
     (let score = (if bid = tw then bid * 20 + 10 else - 10 * abs (bid - tw))
      in if bid = 0 then (if tw = 0 then 10 * rn else - 10 * rn) else score)"

text \<open>The loop of \<open>calculate_scores\<close>: the local \<open>round_scores\<close>, the round state and the
  cumulative scores of the game.\<close>

fun score_loop ::
  "Player list \<Rightarrow> GameState \<Rightarrow> (string \<rightharpoonup> int) \<Rightarrow> (string \<rightharpoonup> int)
     \<Rightarrow> (error + (string \<rightharpoonup> int)) \<times> GameState \<times> (string \<rightharpoonup> int)"
where
  "score_loop [] st cum round_scores = (Inr round_scores, st, cum)"
| "score_loop (player # ps) st cum round_scores =
     (case bids st (name player) of
        None \<Rightarrow> (Inl KeyError, st, cum)
      | Some bid \<Rightarrow>
          (case tricks_won st (name player) of
             None \<Rightarrow> (Inl KeyError, st, cum)
           | Some tw \<Rightarrow>
               (let score = round_score bid tw (round_num st) in
                  (case scores st (name player) of
                     None \<Rightarrow> (Inl KeyError, st, cum)
                   | Some old \<Rightarrow>
                       score_loop ps
                         (st\<lparr>scores := (scores st)(name player \<mapsto> old + score)\<rparr>)
                         (cum(name player \<mapsto> old + score))
                         (round_scores(name player \<mapsto> score))))))"

definition calculate_scores :: "SkullKingGame \<Rightarrow> (error + (string \<rightharpoonup> int)) \<times> SkullKingGame" where
  "calculate_scores g =
     (case state g of
        None \<Rightarrow> (Inl RuntimeError, g)
      | Some st \<Rightarrow>
          (case score_loop (g_players g) st (cumulative_scores g) Map.empty of
             (r, st', cum') \<Rightarrow> (r, g\<lparr>state := Some st', cumulative_scores := cum'\<rparr>)))"

text \<open>\<open>next(card for player, card in trick.cards_played if player == winner)\<close>: the card of
  the first play whose player equals the winner; \<open>StopIteration\<close> when there is none.\<close>

fun first_card_of :: "Player \<Rightarrow> (Player \<times> Card) list \<Rightarrow> error + Card" where
  "first_card_of w [] = Inl StopIteration"
| "first_card_of w ((player, c) # rest) =
     (if name player = name w then Inr c else first_card_of w rest)"

text \<open>The body of the loop over the tricks in \<open>check_special_bonuses\<close>: the trick after it
  (its \<open>winner\<close> is assigned again by \<open>determine_winner\<close>) and the bonuses.\<close>

definition trick_bonus ::
  "Trick \<Rightarrow> (string \<rightharpoonup> int) \<Rightarrow> (error + (string \<rightharpoonup> int)) \<times> Trick"
where
  "trick_bonus trick bonuses =
     (let skull_king_played = (\<exists>x \<in> set (cards_played trick). card_type (snd x) = SKULL_KING) in
        if skull_king_played then
          (case determine_winner trick of
             Inl e \<Rightarrow> (Inl e, trick)
           | Inr (None, trick') \<Rightarrow> (Inr bonuses, trick')
           | Inr (Some w, trick') \<Rightarrow>
               (case first_card_of w (cards_played trick') of
                  Inl e \<Rightarrow> (Inl e, trick')
                | Inr winner_card \<Rightarrow>
                    if card_type winner_card = MERMAID then
                      (case bonuses (name w) of
                         None \<Rightarrow> (Inl KeyError, trick')
                       | Some b \<Rightarrow> (Inr (bonuses(name w \<mapsto> b + 100)), trick'))
                    else if card_type winner_card = PIRATE then
                      (case bonuses (name w) of
                         None \<Rightarrow> (Inl KeyError, trick')
                       | Some b \<Rightarrow> (Inr (bonuses(name w \<mapsto> b + 50)), trick'))
                    else (Inr bonuses, trick')))
        else (Inr bonuses, trick))"

fun bonus_loop ::
  "Trick list \<Rightarrow> (string \<rightharpoonup> int) \<Rightarrow> (error + (string \<rightharpoonup> int)) \<times> Trick list"
where
  "bonus_loop [] bonuses = (Inr bonuses, [])"
| "bonus_loop (trick # ts) bonuses =
     (case trick_bonus trick bonuses of
        (Inl e, trick') \<Rightarrow> (Inl e, trick' # ts)
      | (Inr bonuses', trick') \<Rightarrow>
          (case bonus_loop ts bonuses' of (r, ts') \<Rightarrow> (r, trick' # ts')))"

text \<open>The second loop of \<open>check_special_bonuses\<close>, which adds the bonuses to the scores.\<close>

fun apply_bonuses ::
  "Player list \<Rightarrow> (string \<rightharpoonup> int) \<Rightarrow> GameState \<Rightarrow> (string \<rightharpoonup> int)
     \<Rightarrow> (error + unit) \<times> GameState \<times> (string \<rightharpoonup> int)"
where
  "apply_bonuses [] bonuses st cum = (Inr (), st, cum)"
| "apply_bonuses (player # ps) bonuses st cum =
     (case scores st (name player) of
        None \<Rightarrow> (Inl KeyError, st, cum)
      | Some old \<Rightarrow>
          (case bonuses (name player) of
             None \<Rightarrow> (Inl KeyError, st, cum)
           | Some b \<Rightarrow>
               apply_bonuses ps bonuses
                 (st\<lparr>scores := (scores st)(name player \<mapsto> old + b)\<rparr>)
                 (cum(name player \<mapsto> old + b))))"

definition check_special_bonuses ::
  "SkullKingGame \<Rightarrow> (error + (string \<rightharpoonup> int)) \<times> SkullKingGame"
where
  "check_special_bonuses g =
     (case state g of
        None \<Rightarrow> (Inr Map.empty, g)
      | Some st \<Rightarrow>
          (case bonus_loop (tricks st) (zero_dict (g_players g)) of
             (Inl e, ts') \<Rightarrow> (Inl e, g\<lparr>state := Some (st\<lparr>tricks := ts'\<rparr>)\<rparr>)
           | (Inr bonuses, ts') \<Rightarrow>
               (case apply_bonuses (g_players g) bonuses (st\<lparr>tricks := ts'\<rparr>) (cumulative_scores g) of
                  (Inl e, st', cum') \<Rightarrow> (Inl e, g\<lparr>state := Some st', cumulative_scores := cum'\<rparr>)
                | (Inr u, st', cum') \<Rightarrow>
                    (Inr bonuses, g\<lparr>state := Some st', cumulative_scores := cum'\<rparr>))))"

section \<open>Predicates and sample data used in the statements\<close>

text \<open>A bot that always bids \<open>b\<close>.\<close>

definition const_bot :: "string \<Rightarrow> int \<Rightarrow> Player" where
  "const_bot n b = \<lparr>name = n, make_bid = (\<lambda>hand rn previous_bids. b)\<rparr>"

text \<open>Two cards are decided under a led suit when one of them is an Escape or a ranked special
  card (Skull King, Mermaid, Pirate), or both are number cards that share a suit or of which
  one is of the led suit.\<close>

definition decisive :: "Card \<Rightarrow> Card \<Rightarrow> Suit option \<Rightarrow> bool" where
  "decisive a b led \<longleftrightarrow>
     card_type a \<in> {ESCAPE, SKULL_KING, MERMAID, PIRATE}
     \<or> card_type b \<in> {ESCAPE, SKULL_KING, MERMAID, PIRATE}
     \<or> (card_type a = NUMBER \<and> card_type b = NUMBER
         \<and> (suit a = suit b \<or> suit a = led \<or> suit b = led))"

(*PROPERTIES*)

section \<open>Cards: validity and comparison\<close>

lemma Card_init_idem:
  "Card_init ct s v = Inr c \<Longrightarrow> Card_init (card_type c) (suit c) (card_value c) = Inr c"
  unfolding Card_init_def
  by (cases ct; cases s; cases v) (auto split: if_splits)

lemma valid_card_iff: "valid_card c \<longleftrightarrow> (\<exists>ct s v. Card_init ct s v = Inr c)"
  unfolding valid_card_def using Card_init_idem by blast

lemma valid_number_value:
  "valid_card c \<Longrightarrow> card_type c = NUMBER \<Longrightarrow>
   \<exists>s v. suit c = Some s \<and> s \<noteq> SPECIAL \<and> card_value c = Some v \<and> 1 \<le> v \<and> v \<le> 13"
  unfolding valid_card_def Card_init_def
  by (cases c) (auto split: if_splits option.splits)

lemma valid_special_eq:
  "valid_card c \<Longrightarrow> card_type c \<in> {ESCAPE, PIRATE, MERMAID, SKULL_KING, TIGRESS} \<Longrightarrow>
   c = special_card (card_type c)"
  unfolding valid_card_def Card_init_def special_card_def
  by (cases c) (auto split: if_splits option.splits)

lemma valid_special_card:
  "ct \<in> {ESCAPE, PIRATE, MERMAID, SKULL_KING, TIGRESS} \<Longrightarrow> valid_card (special_card ct)"
  by (auto simp: valid_card_def special_card_def Card_init_def)

lemma valid_number_card:
  "s \<noteq> SPECIAL \<Longrightarrow> 1 \<le> v \<Longrightarrow> v \<le> 13 \<Longrightarrow> valid_card (number_card s v)"
  by (simp add: valid_card_def number_card_def Card_init_def)

lemma beats_numbers:
  "card_type a = NUMBER \<Longrightarrow> card_type b = NUMBER \<Longrightarrow>
   beats a b led trump =
     (if trump \<noteq> None \<and> suit a = trump \<and> suit b \<noteq> trump then Inr True
      else if trump \<noteq> None \<and> suit b = trump \<and> suit a \<noteq> trump then Inr False
      else if trump \<noteq> None \<and> suit a = trump \<and> suit b = trump then
        py_gt (card_value a) (card_value b)
      else if suit a = suit b then py_gt (card_value a) (card_value b)
      else if suit a = led then Inr True
      else Inr False)"
  by (simp add: beats_def special_hierarchy_def Let_def)

lemma py_gt_asym: "py_gt x y = Inr True \<Longrightarrow> py_gt y x = Inr False"
  by (auto simp: py_gt_def split: option.splits)

text \<open>On valid cards no comparison raises.\<close>

lemma beats_total:
  assumes "valid_card a" "valid_card b"
  shows "beats a b led trump = Inr True \<or> beats a b led trump = Inr False"
proof (cases "card_type a = NUMBER \<and> card_type b = NUMBER")
  case True
  obtain va where va: "card_value a = Some va"
    using valid_number_value[OF assms(1)] True by blast
  obtain vb where vb: "card_value b = Some vb"
    using valid_number_value[OF assms(2)] True by blast
  show ?thesis
    unfolding beats_def using True va vb
    by (auto simp add: special_hierarchy_def py_gt_def Let_def)
next
  case False
  then show ?thesis
    by (cases "card_type a"; cases "card_type b") (simp_all add: beats_def special_hierarchy_def)
qed

text \<open>No two cards beat each other.\<close>

lemma beats_asym:
  "beats a b led trump = Inr True \<Longrightarrow> beats b a led trump = Inr False"
proof (cases "card_type a = NUMBER \<and> card_type b = NUMBER")
  case True
  assume "beats a b led trump = Inr True"
  then show ?thesis
    using True
    by (auto simp: beats_numbers py_gt_asym split: if_splits)
next
  case False
  assume "beats a b led trump = Inr True"
  then show ?thesis
    using False
    by (cases "card_type a"; cases "card_type b") (simp_all add: beats_def special_hierarchy_def)
qed

lemma beats_escape_self: "card_type c = ESCAPE \<Longrightarrow> beats c d led trump = Inr False"
  by (simp add: beats_def)

lemma beats_numbers_exactly_one:
  assumes ta: "card_type a = NUMBER" and tb: "card_type b = NUMBER"
    and va: "card_value a = Some x" and vb: "card_value b = Some y"
    and ne: "suit a \<noteq> suit b \<or> x \<noteq> y"
    and dec: "suit a = suit b \<or> suit a = led \<or> suit b = led"
  shows "(beats a b led None = Inr True \<and> beats b a led None = Inr False)
       \<or> (beats a b led None = Inr False \<and> beats b a led None = Inr True)"
  using ne dec
  by (simp add: beats_def ta tb va vb special_hierarchy_def py_gt_def) (auto)

lemma beats_ranked_exactly_one:
  assumes "card_type a \<in> {ESCAPE, SKULL_KING, MERMAID, PIRATE}
           \<or> card_type b \<in> {ESCAPE, SKULL_KING, MERMAID, PIRATE}"
    and "card_type a \<noteq> card_type b"
  shows "(beats a b led trump = Inr True \<and> beats b a led trump = Inr False)
       \<or> (beats a b led trump = Inr False \<and> beats b a led trump = Inr True)"
  using assms
  by (cases "card_type a"; cases "card_type b") (simp_all add: beats_def special_hierarchy_def)

text \<open>
  Claim C1, as the code has it. The claim as stated (any two distinct cards are decided one
  way unless both are Escape) fails: a Tigress and a number card do not beat each other, and
  neither do two number cards of different suits when neither is of the led suit.
\<close>

theorem beats_counterexample:
  "valid_card (special_card TIGRESS) \<and> valid_card (number_card RED 5)
   \<and> special_card TIGRESS \<noteq> number_card RED 5
   \<and> beats (special_card TIGRESS) (number_card RED 5) (Some RED) None = Inr False
   \<and> beats (number_card RED 5) (special_card TIGRESS) (Some RED) None = Inr False
   \<and> valid_card (number_card BLUE 3)
   \<and> number_card RED 5 \<noteq> number_card BLUE 3
   \<and> beats (number_card RED 5) (number_card BLUE 3) (Some GREEN) None = Inr False
   \<and> beats (number_card BLUE 3) (number_card RED 5) (Some GREEN) None = Inr False"
  by (simp add: valid_special_card valid_number_card)
     (simp add: beats_def special_hierarchy_def special_card_def number_card_def)

text \<open>
  Claim C1, amended: for two distinct valid cards and a led suit (no trump), exactly one of
  \<open>A.beats(B)\<close> and \<open>B.beats(A)\<close> is true whenever the pair is decided: one of the two is an
  Escape, a Skull King, a Mermaid or a Pirate, or both are number cards that share a suit or
  of which one is of the led suit. Two Escape cards never beat each other.
\<close>

theorem beats_exactly_one:
  "(valid_card a \<and> valid_card b \<and> a \<noteq> b \<and> decisive a b led \<longrightarrow>
      (beats a b led None = Inr True \<and> beats b a led None = Inr False)
      \<or> (beats a b led None = Inr False \<and> beats b a led None = Inr True))
   \<and> (card_type a = ESCAPE \<and> card_type b = ESCAPE \<longrightarrow>
      beats a b led None = Inr False \<and> beats b a led None = Inr False)"
proof (intro conjI impI)
  assume h: "valid_card a \<and> valid_card b \<and> a \<noteq> b \<and> decisive a b led"
  show "(beats a b led None = Inr True \<and> beats b a led None = Inr False)
      \<or> (beats a b led None = Inr False \<and> beats b a led None = Inr True)"
  proof (cases "card_type a = NUMBER \<and> card_type b = NUMBER")
    case True
    obtain sa x where a: "suit a = Some sa" "card_value a = Some x"
      using valid_number_value[of a] h True by blast
    obtain sb y where b: "suit b = Some sb" "card_value b = Some y"
      using valid_number_value[of b] h True by blast
    have ne: "suit a \<noteq> suit b \<or> x \<noteq> y"
      using h True a b by (cases a; cases b) auto
    have dec: "suit a = suit b \<or> suit a = led \<or> suit b = led"
      using h True unfolding decisive_def by auto
    show ?thesis
      using beats_numbers_exactly_one[OF _ _ a(2) b(2) ne dec] True by blast
  next
    case False
    with h have r: "card_type a \<in> {ESCAPE, SKULL_KING, MERMAID, PIRATE}
                    \<or> card_type b \<in> {ESCAPE, SKULL_KING, MERMAID, PIRATE}"
      unfolding decisive_def by blast
    have "card_type a \<noteq> card_type b"
    proof
      assume eq: "card_type a = card_type b"
      with r have "card_type a \<in> {ESCAPE, PIRATE, MERMAID, SKULL_KING, TIGRESS}"
        "card_type b \<in> {ESCAPE, PIRATE, MERMAID, SKULL_KING, TIGRESS}" by auto
      then have "a = special_card (card_type a)" "b = special_card (card_type b)"
        using valid_special_eq h by blast+
      with eq h show False by simp
    qed
    with r show ?thesis by (rule beats_ranked_exactly_one)
  qed
next
  assume "card_type a = ESCAPE \<and> card_type b = ESCAPE"
  then show "beats a b led None = Inr False" by (simp add: beats_escape_self)
next
  assume "card_type a = ESCAPE \<and> card_type b = ESCAPE"
  then show "beats b a led None = Inr False" by (simp add: beats_escape_self)
qed

theorem beats_exactly_one_witness:
  "beats (number_card RED 5) (number_card BLUE 9) (Some RED) None = Inr True
   \<and> beats (number_card BLUE 9) (number_card RED 5) (Some RED) None = Inr False
   \<and> beats (special_card ESCAPE) (special_card ESCAPE) (Some RED) None = Inr False"
proof -
  have v: "valid_card (number_card RED 5) \<and> valid_card (number_card BLUE 9)
           \<and> number_card RED 5 \<noteq> number_card BLUE 9
           \<and> decisive (number_card RED 5) (number_card BLUE 9) (Some RED)"
    by (simp add: valid_number_card) (simp add: number_card_def decisive_def)
  have e: "card_type (special_card ESCAPE) = ESCAPE" by (simp add: special_card_def)
  have n: "beats (number_card RED 5) (number_card BLUE 9) (Some RED) None \<noteq> Inr False"
    by (simp add: beats_def special_hierarchy_def number_card_def)
  show ?thesis
    using beats_exactly_one[of "number_card RED 5" "number_card BLUE 9" "Some RED"]
      beats_exactly_one[of "special_card ESCAPE" "special_card ESCAPE" "Some RED"] v e n
    by blast
qed

text \<open>
  Claim C6: under \<open>beats\<close>, for every led suit (and every trump suit, in particular none), a
  Mermaid beats the Skull King, a Pirate beats a Mermaid and the Skull King, the Skull King
  beats every Number card and every Jolly-Roger card, an Escape beats no card, and every card
  that is not an Escape beats an Escape.
\<close>

theorem beats_hierarchy:
  "(card_type m = MERMAID \<and> card_type k = SKULL_KING \<and> card_type p = PIRATE \<longrightarrow>
      beats m k led trump = Inr True
      \<and> beats p m led trump = Inr True
      \<and> beats p k led trump = Inr True)
   \<and> (card_type k = SKULL_KING \<and> card_type c \<in> {NUMBER, JOLLY_ROGER} \<longrightarrow>
      beats k c led trump = Inr True)
   \<and> (card_type e = ESCAPE \<longrightarrow> beats e c led trump = Inr False)
   \<and> (card_type e = ESCAPE \<and> card_type c \<noteq> ESCAPE \<longrightarrow> beats c e led trump = Inr True)"
  unfolding beats_def special_hierarchy_def
  by (auto split: option.splits)

theorem beats_hierarchy_witness:
  "beats (special_card MERMAID) (special_card SKULL_KING) (Some RED) None = Inr True
   \<and> beats (special_card PIRATE) (special_card MERMAID) (Some RED) None = Inr True
   \<and> beats (special_card PIRATE) (special_card SKULL_KING) (Some RED) None = Inr True
   \<and> beats (special_card SKULL_KING) (number_card RED 13) (Some RED) None = Inr True
   \<and> beats (special_card ESCAPE) (number_card RED 13) (Some RED) None = Inr False
   \<and> beats (number_card RED 13) (special_card ESCAPE) (Some RED) None = Inr True"
  using beats_hierarchy[where m = "special_card MERMAID" and k = "special_card SKULL_KING"
      and p = "special_card PIRATE" and c = "number_card RED 13" and e = "special_card ESCAPE"
      and led = "Some RED" and trump = None]
  by (simp add: special_card_def number_card_def)

section \<open>Trick resolution\<close>

lemma winner_loop_all_escape:
  "\<forall>x \<in> set rest. card_type (snd x) = ESCAPE \<Longrightarrow> winner_loop led trump w rest = Inr w"
  by (induction rest) (auto simp: beats_escape_self)

lemma trick_of_plays_two:
  "trick_of_plays rn tn trump [(p, c), (q, d)] =
     \<lparr>t_round_num = rn, trick_num = tn, t_trump_suit = trump,
      cards_played = [(p, c), (q, d)],
      led_suit = (if card_type c = NUMBER then suit c else Some SPECIAL), winner = None\<rparr>"
  by (simp add: trick_of_plays_def Trick_init_def Trick_play_card_def)

text \<open>
  Claim C10: when every card played in a non-empty trick is an Escape, \<open>determine_winner\<close>
  returns the player of the first play; on a trick without plays it returns \<open>None\<close> and does
  not raise.
\<close>

theorem determine_winner_escapes:
  "(cards_played t = (p, c) # rest \<and> (\<forall>x \<in> set ((p, c) # rest). card_type (snd x) = ESCAPE)
      \<longrightarrow> determine_winner t = Inr (Some p, t\<lparr>winner := Some p\<rparr>))
   \<and> (cards_played t = [] \<longrightarrow> determine_winner t = Inr (None, t))"
  by (auto simp: determine_winner_def winner_loop_all_escape)

theorem determine_winner_escapes_witness:
  "fst (projr (determine_winner (trick_of_plays 1 1 None
       [(const_bot ''ann'' 0, special_card ESCAPE), (const_bot ''bob'' 0, special_card ESCAPE)])))
     = Some (const_bot ''ann'' 0)
   \<and> determine_winner (Trick_init 1 1 None) = Inr (None, Trick_init 1 1 None)"
  using determine_winner_escapes[of "trick_of_plays 1 1 None
       [(const_bot ''ann'' 0, special_card ESCAPE), (const_bot ''bob'' 0, special_card ESCAPE)]"
       "const_bot ''ann'' 0" "special_card ESCAPE" "[(const_bot ''bob'' 0, special_card ESCAPE)]"]
    determine_winner_escapes[of "Trick_init 1 1 None"]
  by (simp add: trick_of_plays_two special_card_def Trick_init_def)

end
